theory Spec2Isabelle
  imports Complex_Main "HOL-Library.Sublist"
begin

section \<open>Loosely typed documents\<close>

text \<open>
  The workflow code works on \<open>unstructured.Unstructured\<close> objects, that is on trees of
  \<open>map[string]interface{}\<close>, \<open>[]interface{}\<close>, strings, numbers, booleans and \<open>nil\<close>.
  A Go map is modelled as an association list read with \<open>map_of\<close>; \<open>JInt\<close> is an
  \<open>int64\<close> stored by the code itself, \<open>JFloat\<close> a number as the YAML decoder
  delivers it (a \<open>float64\<close>).
\<close>

datatype json =
    JNull
  | JBool bool
  | JInt int
  | JFloat rat
  | JStr string
  | JList "json list"
  | JMap "(string \<times> json) list"

type_synonym obj = "(string \<times> json) list"

text \<open>\<open>m[k] = v\<close> on a Go map: the binding of \<open>k\<close> is replaced, or added.\<close>

fun put :: "string \<Rightarrow> json \<Rightarrow> obj \<Rightarrow> obj" where
  "put k v [] = [(k, v)]"
| "put k v ((k', v') # m) = (if k' = k then (k, v) # m else (k', v') # put k v m)"

text \<open>\<open>delete(m, k)\<close>.\<close>

definition del :: "string \<Rightarrow> obj \<Rightarrow> obj" where
  "del k m = filter (\<lambda>kv. fst kv \<noteq> k) m"

text \<open>
  \<open>m[k]\<close> read as an \<open>interface{}\<close>: a missing key reads as \<open>nil\<close>, as a key bound
  to \<open>nil\<close> does.
\<close>

definition index :: "obj \<Rightarrow> string \<Rightarrow> json" where
  "index m k = (case map_of m k of None \<Rightarrow> JNull | Some v \<Rightarrow> v)"

text \<open>
  The three results of the \<open>unstructured.Nested*\<close> accessors: the value with
  \<open>found = true\<close>; \<open>found = false\<close> without an error; \<open>found = false\<close> with an
  accessor error.
\<close>

datatype 'a nested = Found 'a | Missing | AccessorError

text \<open>
  \<open>unstructured.NestedFieldNoCopy\<close>: walks the fields from the root; a \<open>nil\<close> on the
  way or a missing key is \<open>Missing\<close>, a value that is not a map where a map is needed
  is an accessor error.
\<close>

fun NestedFieldNoCopy :: "json \<Rightarrow> string list \<Rightarrow> json nested" where
  "NestedFieldNoCopy val [] = Found val"
| "NestedFieldNoCopy JNull (f # fs) = Missing"
| "NestedFieldNoCopy (JMap m) (f # fs) =
     (case map_of m f of None \<Rightarrow> Missing | Some v \<Rightarrow> NestedFieldNoCopy v fs)"
| "NestedFieldNoCopy _ (f # fs) = AccessorError"

definition NestedString :: "obj \<Rightarrow> string list \<Rightarrow> string nested" where
  "NestedString m fs =
     (case NestedFieldNoCopy (JMap m) fs of
        Found (JStr s) \<Rightarrow> Found s
      | Found _ \<Rightarrow> AccessorError
      | Missing \<Rightarrow> Missing
      | AccessorError \<Rightarrow> AccessorError)"

definition NestedMap :: "obj \<Rightarrow> string list \<Rightarrow> obj nested" where
  "NestedMap m fs =
     (case NestedFieldNoCopy (JMap m) fs of
        Found (JMap x) \<Rightarrow> Found x
      | Found _ \<Rightarrow> AccessorError
      | Missing \<Rightarrow> Missing
      | AccessorError \<Rightarrow> AccessorError)"

text \<open>
  \<open>unstructured.SetNestedField\<close> (and \<open>SetNestedMap\<close>, \<open>SetNestedSlice\<close>, which copy
  the value and call it): every field but the last is entered, a missing one is created
  as an empty map, and one that holds something else than a map is the error
  "value cannot be set because ... is not a map", \<open>None\<close> here. No call site passes an
  empty path.
\<close>

fun SetNestedField :: "obj \<Rightarrow> json \<Rightarrow> string list \<Rightarrow> obj option" where
  "SetNestedField m v [] = None"
| "SetNestedField m v [f] = Some (put f v m)"
| "SetNestedField m v (f # g # fs) =
     (case map_of m f of
        None \<Rightarrow> map_option (\<lambda>x. put f (JMap x) m) (SetNestedField [] v (g # fs))
      | Some (JMap x) \<Rightarrow> map_option (\<lambda>x. put f (JMap x) m) (SetNestedField x v (g # fs))
      | Some _ \<Rightarrow> None)"

text \<open>\<open>unstructured.RemoveNestedField\<close>: nothing happens when the path does not exist.\<close>

fun RemoveNestedField :: "obj \<Rightarrow> string list \<Rightarrow> obj" where
  "RemoveNestedField m [] = m"
| "RemoveNestedField m [f] = del f m"
| "RemoveNestedField m (f # g # fs) =
     (case map_of m f of
        Some (JMap x) \<Rightarrow> put f (JMap (RemoveNestedField x (g # fs))) m
      | _ \<Rightarrow> m)"

text \<open>
  The accessors of \<open>Unstructured\<close>. The setters drop the error of \<open>SetNestedField\<close>;
  the getters read a missing or ill-typed field as the empty string; an empty name
  or namespace removes the field.
\<close>

definition setNestedField :: "obj \<Rightarrow> json \<Rightarrow> string list \<Rightarrow> obj" where
  "setNestedField u v fs = (case SetNestedField u v fs of None \<Rightarrow> u | Some u' \<Rightarrow> u')"

definition getNestedString :: "obj \<Rightarrow> string list \<Rightarrow> string" where
  "getNestedString u fs = (case NestedString u fs of Found s \<Rightarrow> s | _ \<Rightarrow> [])"

definition GetName :: "obj \<Rightarrow> string" where
  "GetName u = getNestedString u [''metadata'', ''name'']"

definition GetNamespace :: "obj \<Rightarrow> string" where
  "GetNamespace u = getNestedString u [''metadata'', ''namespace'']"

definition SetName :: "string \<Rightarrow> obj \<Rightarrow> obj" where
  "SetName n u =
     (if n = [] then RemoveNestedField u [''metadata'', ''name'']
      else setNestedField u (JStr n) [''metadata'', ''name''])"

definition SetNamespace :: "string \<Rightarrow> obj \<Rightarrow> obj" where
  "SetNamespace n u =
     (if n = [] then RemoveNestedField u [''metadata'', ''namespace'']
      else setNestedField u (JStr n) [''metadata'', ''namespace''])"

text \<open>
  \<open>SetGroupVersionKind\<close> with the one value the code uses,
  \<open>{Kind: "Workflow", Group: "argoproj.io", Version: "v1alpha1"}\<close>.
\<close>

definition SetGroupVersionKind_Workflow :: "obj \<Rightarrow> obj" where
  "SetGroupVersionKind_Workflow u =
     setNestedField (setNestedField u (JStr ''argoproj.io/v1alpha1'') [''apiVersion''])
       (JStr ''Workflow'') [''kind'']"

section \<open>Results, errors and the addon\<close>

text \<open>
  A Go call returns normally, returns an \<open>error\<close>, or panics (a failed unchecked type
  assertion, a write to a \<open>nil\<close> map). The errors are named after the places that
  make them.
\<close>

datatype error =
    InvalidYamlSpec
  | MissingSpec
  | InvalidWorkflow error
  | InvalidWorkflowParameter
  | UnmarshalArtifact string
  | MarshalResource
  | NestedAccessor
  | NotAMap
  | ClientError
  | NotFound
  | CouldNotFindWorkflow
  | ListFailed
  | TimeParse string
  | ConvertFailed
  | OwnerReferenceFailed

datatype 'a result = Ok 'a | Failure error | Panic

text \<open>
  Modelled from the spec: the declarations of \<open>Addon\<close>, \<open>AddonParams\<close>,
  \<open>ClusterContext\<close>, \<open>PackageSpec\<close> and \<open>WorkflowType\<close> (api/v1alpha1; only their
  generated copy functions are at hand). The parameter set is a namespace, a context
  of named string fields (cluster name and region) with an open map of additional
  configs, and an open data map; the fields below are those that the workflow code
  reads.
\<close>

record ClusterContext =
  ClusterName :: string
  ClusterRegion :: string
  AdditionalConfigs :: "string \<rightharpoonup> string"

record AddonParams =
  Namespace :: string
  Context :: ClusterContext
  Data :: "string \<rightharpoonup> string"

record Addon =
  Name :: string
  AddonNamespace :: string
  UID :: string
  AddonAPIVersion :: string
  AddonKind :: string
  PkgVersion :: string
  Params :: AddonParams
  Checksum :: string

record WorkflowType =
  Template :: string
  Role :: string

text \<open>
  What \<open>reflect\<close> shows of a struct field: its Go name, its tag, its kind, and the
  value as \<open>String()\<close> gives it.
\<close>

datatype Kind = KString | KMap

record StructField =
  FieldName :: string
  JsonTag :: string
  FieldKind :: Kind
  FieldString :: string

text \<open>
  Modelled from the spec: the fields of \<open>ClusterContext\<close> in declaration order with
  their serialization names (the declaration itself is in api/v1alpha1).
\<close>

definition ClusterContext_fields :: "ClusterContext \<Rightarrow> StructField list" where
  "ClusterContext_fields c =
     [\<lparr>FieldName = ''ClusterName'', JsonTag = ''clusterName,omitempty'',
       FieldKind = KString, FieldString = ClusterName c\<rparr>,
      \<lparr>FieldName = ''ClusterRegion'', JsonTag = ''clusterRegion,omitempty'',
       FieldKind = KString, FieldString = ClusterRegion c\<rparr>,
      \<lparr>FieldName = ''AdditionalConfigs'', JsonTag = ''additionalConfigs,omitempty'',
       FieldKind = KMap, FieldString = ''<map[string]v1alpha1.FlexString Value>''\<rparr>]"

text \<open>
  The decoder and encoder of \<open>github.com/ghodss/yaml\<close> are a library of their own and
  are taken as parameters. \<open>Unmarshal\<close> into a map fails (\<open>None\<close>) or gives the map; a
  document that is empty or \<open>null\<close> leaves a \<open>nil\<close> map, which reads as the empty one.
\<close>

record Yaml =
  Unmarshal :: "string \<Rightarrow> obj option"
  Marshal :: "obj \<Rightarrow> string option"

section \<open>Template Renderer\<close>

text \<open>
  \<open>parse\<close>. The identity, namespace and name are set before \<open>spec\<close> is looked up;
  \<open>spec.(map[string]interface{})\<close> is an unchecked assertion.
\<close>

definition parse :: "Yaml \<Rightarrow> Addon \<Rightarrow> WorkflowType \<Rightarrow> obj \<Rightarrow> string \<Rightarrow> obj result" where
  "parse y addon wt wf0 name =
     (case Unmarshal y (Template wt) of
        None \<Rightarrow> Failure InvalidYamlSpec
      | Some data \<Rightarrow>
          let content = SetName name (SetNamespace (AddonNamespace addon)
                          (SetGroupVersionKind_Workflow wf0))
          in (case map_of data ''spec'' of
                None \<Rightarrow> Failure MissingSpec
              | Some (JMap spec) \<Rightarrow>
                  (let spec' = (if index spec ''ttlSecondsAfterFinished'' = JNull
                                then put ''ttlSecondsAfterFinished'' (JInt 259200) spec
                                else spec)
                   in Ok (put ''spec'' (JMap spec') content))
              | Some _ \<Rightarrow> Panic))"

section \<open>Parameter Injector\<close>

text \<open>One entry of \<open>spec.arguments.parameters\<close>.\<close>

definition param :: "string \<Rightarrow> string \<Rightarrow> json" where
  "param n v = JMap [(''name'', JStr n), (''value'', JStr v)]"

text \<open>\<open>strings.Split(tag.Get("json"), ",")[0]\<close>.\<close>

definition jsonTag :: "string \<Rightarrow> string" where
  "jsonTag t = takeWhile (\<lambda>c. c \<noteq> CHR '','') t"

text \<open>The loop over the fields of the context: only fields of kind string give an entry.\<close>

definition contextEntries :: "ClusterContext \<Rightarrow> json list" where
  "contextEntries c =
     map (\<lambda>f. param (jsonTag (JsonTag f)) (FieldString f))
       (filter (\<lambda>f. FieldKind f = KString) (ClusterContext_fields c))"

text \<open>
  \<open>for name, value := range m\<close>: Go fixes no order. The order that a run takes is an
  argument, a list of the keys; it is an iteration of \<open>m\<close> when it holds each key of
  \<open>m\<close> once and nothing else.
\<close>

definition range_order :: "(string \<rightharpoonup> string) \<Rightarrow> string list \<Rightarrow> bool" where
  "range_order m ks \<longleftrightarrow> distinct ks \<and> set ks = dom m"

definition rangeEntries :: "(string \<rightharpoonup> string) \<Rightarrow> string list \<Rightarrow> json list" where
  "rangeEntries m ks = map (\<lambda>k. param k (case m k of None \<Rightarrow> [] | Some v \<Rightarrow> v)) ks"

text \<open>What \<open>configureGlobalWFParameters\<close> appends, in the order of its statements.\<close>

definition appended :: "string list \<times> string list \<Rightarrow> Addon \<Rightarrow> json list" where
  "appended ord addon =
     [param ''namespace'' (Namespace (Params addon))]
     @ contextEntries (Context (Params addon))
     @ rangeEntries (AdditionalConfigs (Context (Params addon))) (fst ord)
     @ rangeEntries (Data (Params addon)) (snd ord)"

text \<open>
  \<open>configureGlobalWFParameters\<close>. \<open>spec\<close> is read with a checked assertion (a \<open>nil\<close>
  map when it fails, and the write of \<open>arguments\<close> into it then panics); \<open>arguments\<close>
  and \<open>parameters\<close> are read with unchecked ones. The maps are updated in place, so
  the workflow holds the defaults before \<open>SetNestedSlice\<close> writes the list back.
  The test \<open>wfParams == nil\<close> that follows the second assertion has no effect on
  the list that is built (it stores an empty list where an empty list is read). The
  result is the returned flag and the workflow.
\<close>

definition configureGlobalWFParameters ::
    "string list \<times> string list \<Rightarrow> Addon \<Rightarrow> obj \<Rightarrow> (bool \<times> obj) result" where
  "configureGlobalWFParameters ord addon wf0 =
     (case index wf0 ''spec'' of
        JMap spec \<Rightarrow>
          let spec1 = (if index spec ''arguments'' = JNull
                       then put ''arguments'' (JMap []) spec else spec)
          in (case index spec1 ''arguments'' of
                JMap arguments \<Rightarrow>
                  let arguments1 = (if index arguments ''parameters'' = JNull
                                    then put ''parameters'' (JList []) arguments
                                    else arguments)
                  in (case index arguments1 ''parameters'' of
                        JList wfParams \<Rightarrow>
                          let wf1 = put ''spec''
                                      (JMap (put ''arguments'' (JMap arguments1) spec1)) wf0
                          in (case SetNestedField wf1 (JList (wfParams @ appended ord addon))
                                     [''spec'', ''arguments'', ''parameters''] of
                                None \<Rightarrow> Ok (False, wf1)
                              | Some wf2 \<Rightarrow> Ok (True, wf2))
                      | _ \<Rightarrow> Panic)
              | _ \<Rightarrow> Panic)
      | _ \<Rightarrow> Panic)"

section \<open>Lifecycle phases and status translation\<close>

datatype ApplicationAssemblyPhase = Pending | Succeeded | Failed

text \<open>
  The last statements of \<open>submit\<close>: the phase starts as \<open>Pending\<close>; the status block
  is read with a checked assertion, and \<open>status["phase"]\<close> is compared, as an
  \<open>interface{}\<close>, with the two string constants.
\<close>

definition validate_status :: "obj \<Rightarrow> ApplicationAssemblyPhase" where
  "validate_status workflow =
     (case index workflow ''status'' of
        JMap status \<Rightarrow>
          if index status ''phase'' = JStr ''Succeeded'' then Succeeded
          else if index status ''phase'' = JStr ''Failed'' then Failed
          else Pending
      | _ \<Rightarrow> Pending)"

text \<open>
  The backend phase of a stored execution, as the specification speaks of it: the
  string at \<open>status.phase\<close>, absent when there is no status block, no phase, or a
  phase that is not a string.
\<close>

definition backend_phase :: "obj \<Rightarrow> string option" where
  "backend_phase workflow =
     (case NestedString workflow [''status'', ''phase''] of
        Found s \<Rightarrow> Some s | _ \<Rightarrow> None)"

definition wfParams_of :: "obj \<Rightarrow> json list" where
  \<comment> \<open>the parameters a workflow carries: the list at \<open>spec.arguments.parameters\<close>, if any\<close>
  "wfParams_of w =
     (case NestedFieldNoCopy (JMap w) [''spec'', ''arguments'', ''parameters''] of
        Found (JList l) \<Rightarrow> l | _ \<Rightarrow> [])"

section \<open>Strings\<close>

text \<open>\<open>strings.Contains\<close>: every string contains the empty one.\<close>

fun Contains :: "string \<Rightarrow> string \<Rightarrow> bool" where
  "Contains [] sub = (sub = [])"
| "Contains (c # cs) sub = (prefix sub (c # cs) \<or> Contains cs sub)"

text \<open>
  \<open>strings.Split\<close> for a separator that is not empty: the string is cut at each
  occurrence, found from the left and not overlapping; \<open>strings.Join\<close>. The code
  uses both with the separator of YAML documents, three dashes and a line feed.
\<close>

function splitFrom :: "string \<Rightarrow> string \<Rightarrow> string \<Rightarrow> string list" where
  "splitFrom sep acc s =
     (if s = [] then [rev acc]
      else if sep \<noteq> [] \<and> prefix sep s then rev acc # splitFrom sep [] (drop (length sep) s)
      else splitFrom sep (hd s # acc) (tl s))"
  by pat_completeness auto
termination
  by (relation "measure (\<lambda>(sep, acc, s). length s)") (auto simp: neq_Nil_conv)

declare splitFrom.simps [simp del]

definition Split :: "string \<Rightarrow> string \<Rightarrow> string list" where
  "Split s sep = splitFrom sep [] s"

fun Join :: "string list \<Rightarrow> string \<Rightarrow> string" where
  "Join [] sep = []"
| "Join [x] sep = x"
| "Join (x # y # ys) sep = x @ sep @ Join (y # ys) sep"

definition separator :: string where
  "separator = [CHR ''-'', CHR ''-'', CHR ''-'', CHR 0x0A]"

text \<open>\<open>strings.ToLower\<close> on ASCII letters.\<close>

fun toLower :: "char \<Rightarrow> char" where
  "toLower (Char b0 b1 b2 b3 b4 b5 b6 b7) =
     (let n = (of_char (Char b0 b1 b2 b3 b4 b5 b6 b7) :: nat)
      in if 65 \<le> n \<and> n \<le> 90 then Char b0 b1 b2 b3 b4 True b6 b7
         else Char b0 b1 b2 b3 b4 b5 b6 b7)"

section \<open>Artifact Post-Processor\<close>

text \<open>
  \<open>addDefaultLabelsToResource\<close>. \<open>NestedMap\<close> returns a copy, or a \<open>nil\<close> map when
  there is no \<open>metadata\<close>; the write of \<open>labels\<close> into that \<open>nil\<close> map panics. A
  \<open>labels\<close> field that is not a map counts as not found and is replaced by an empty
  map. The last argument is \<open>common.AddonGVR().Group\<close>, a constant of pkg/common.
\<close>

definition addDefaultLabelsToResource :: "Addon \<Rightarrow> string \<Rightarrow> obj \<Rightarrow> obj result" where
  "addDefaultLabelsToResource addon grp resource =
     (case NestedMap resource [''metadata''] of
        AccessorError \<Rightarrow> Failure NestedAccessor
      | Missing \<Rightarrow> Panic
      | Found metadata \<Rightarrow>
          let metadata1 = (case NestedMap metadata [''labels''] of
                             Found _ \<Rightarrow> metadata
                           | _ \<Rightarrow> put ''labels'' (JMap []) metadata)
          in (case NestedMap metadata1 [''labels''] of
                Found labels \<Rightarrow>
                  (let labels1 = put ''app.kubernetes.io/name'' (JStr (Name addon)) labels;
                       labels2 = put ''app.kubernetes.io/version'' (JStr (PkgVersion addon)) labels1;
                       labels3 = put ''app.kubernetes.io/part-of'' (JStr (Name addon)) labels2;
                       labels4 = put ''app.kubernetes.io/managed-by'' (JStr grp) labels3
                   in (case SetNestedField resource (JMap labels4) [''metadata'', ''labels''] of
                         None \<Rightarrow> Failure NotAMap
                       | Some r \<Rightarrow> Ok r))
              | _ \<Rightarrow> Panic))"

text \<open>
  \<open>addRoleAnnotateToResource\<close>. When \<open>spec.template.metadata\<close> is not found an empty
  map is written there, which fails when \<open>spec\<close> or \<open>spec.template\<close> holds something
  else than a map. The resource is updated in place and returned.
\<close>

definition addRoleAnnotateToResource :: "obj \<Rightarrow> WorkflowType \<Rightarrow> obj result" where
  "addRoleAnnotateToResource resource wt =
     (case (case NestedMap resource [''spec'', ''template'', ''metadata''] of
              Found m \<Rightarrow> Some (resource, Found m)
            | _ \<Rightarrow> (case SetNestedField resource (JMap []) [''spec'', ''template'', ''metadata''] of
                      None \<Rightarrow> None
                    | Some r \<Rightarrow> Some (r, NestedMap r [''spec'', ''template'', ''metadata'']))) of
        None \<Rightarrow> Failure NotAMap
      | Some (resource1, Found metadata) \<Rightarrow>
          let metadata1 = (case NestedMap metadata [''annotations''] of
                             Found _ \<Rightarrow> metadata
                           | _ \<Rightarrow> put ''annotations'' (JMap []) metadata)
          in (case NestedMap metadata1 [''annotations''] of
                Found annotations \<Rightarrow>
                  (case SetNestedField resource1
                          (JMap (put ''iam.amazonaws.com/role'' (JStr (Role wt)) annotations))
                          [''spec'', ''template'', ''metadata'', ''annotations''] of
                     None \<Rightarrow> Failure NotAMap
                   | Some r \<Rightarrow> Ok r)
              | _ \<Rightarrow> Panic)
      | Some (resource1, _) \<Rightarrow> Panic)"

text \<open>The five kinds that \<open>processArtifacts\<close> compares \<open>kind\<close> with.\<close>

definition labelled_kind :: "string \<Rightarrow> bool" where
  "labelled_kind kind \<longleftrightarrow>
     kind = ''StatefulSet'' \<or> kind = ''Deployment'' \<or> kind = ''DaemonSet'' \<or>
     kind = ''ReplicaSet'' \<or> kind = ''Service''"

text \<open>
  The body of the inner loop of \<open>processArtifacts\<close>, on the parsed document: \<open>kind\<close> is
  read with an unchecked assertion; the labels and, inside the same branch, the role
  annotation are added. Both functions update the map they are given, so the
  document that is serialized afterwards is the one they return.
\<close>

definition patchResource :: "Addon \<Rightarrow> string \<Rightarrow> WorkflowType \<Rightarrow> obj \<Rightarrow> obj result" where
  "patchResource addon grp wt resource =
     (case index resource ''kind'' of
        JStr kind \<Rightarrow>
          if labelled_kind kind then
            (case addDefaultLabelsToResource addon grp resource of
               Ok resource1 \<Rightarrow>
                 if Role wt \<noteq> [] then addRoleAnnotateToResource resource1 wt
                 else Ok resource1
             | Failure e \<Rightarrow> Failure e
             | Panic \<Rightarrow> Panic)
          else Ok resource
      | _ \<Rightarrow> Panic)"

text \<open>One pass of the inner loop: decode, patch, encode.\<close>

definition processResource :: "Yaml \<Rightarrow> Addon \<Rightarrow> string \<Rightarrow> WorkflowType \<Rightarrow> string \<Rightarrow> string result" where
  "processResource y addon grp wt doc =
     (case Unmarshal y doc of
        None \<Rightarrow> Failure (UnmarshalArtifact doc)
      | Some resource \<Rightarrow>
          (case patchResource addon grp wt resource of
             Ok resource1 \<Rightarrow>
               (case Marshal y resource1 of
                  None \<Rightarrow> Failure MarshalResource
                | Some s \<Rightarrow> Ok s)
           | Failure e \<Rightarrow> Failure e
           | Panic \<Rightarrow> Panic))"

text \<open>A loop that stops at the first error or panic.\<close>

fun forEach :: "('a \<Rightarrow> 'b result) \<Rightarrow> 'a list \<Rightarrow> 'b list result" where
  "forEach f [] = Ok []"
| "forEach f (x # xs) =
     (case f x of
        Ok y \<Rightarrow> (case forEach f xs of Ok ys \<Rightarrow> Ok (y # ys) | Failure e \<Rightarrow> Failure e | Panic \<Rightarrow> Panic)
      | Failure e \<Rightarrow> Failure e
      | Panic \<Rightarrow> Panic)"

text \<open>
  The new \<open>raw.data\<close> of an artifact: the string is split at the separator, each
  document is processed, and the results are joined with the separator.
\<close>

definition processData :: "Yaml \<Rightarrow> Addon \<Rightarrow> string \<Rightarrow> WorkflowType \<Rightarrow> string \<Rightarrow> string result" where
  "processData y addon grp wt data =
     (case forEach (processResource y addon grp wt) (Split data separator) of
        Ok newData \<Rightarrow> Ok (Join newData separator)
      | Failure e \<Rightarrow> Failure e
      | Panic \<Rightarrow> Panic)"

text \<open>
  The body of the outer loop of \<open>processArtifacts\<close>: an artifact is a map (unchecked);
  \<open>raw.data\<close> is read as a string, the empty one when it is missing or not a string.
\<close>

definition processArtifact :: "Yaml \<Rightarrow> Addon \<Rightarrow> string \<Rightarrow> WorkflowType \<Rightarrow> json \<Rightarrow> json result" where
  "processArtifact y addon grp wt a =
     (case a of
        JMap artifact \<Rightarrow>
          (case processData y addon grp wt (getNestedString artifact [''raw'', ''data'']) of
             Ok data \<Rightarrow>
               (case SetNestedField artifact (JStr data) [''raw'', ''data''] of
                  None \<Rightarrow> Failure NotAMap
                | Some artifact1 \<Rightarrow> Ok (JMap artifact1))
           | Failure e \<Rightarrow> Failure e
           | Panic \<Rightarrow> Panic)
      | _ \<Rightarrow> Panic)"

text \<open>
  \<open>processArtifacts\<close>, on a step or on \<open>spec\<close>: the object is a map (unchecked); when
  \<open>arguments.artifacts\<close> is missing, \<open>nil\<close> or unreachable nothing is done, otherwise it
  is a list (unchecked). The artifacts are updated in place.
\<close>

definition processArtifacts :: "Yaml \<Rightarrow> Addon \<Rightarrow> string \<Rightarrow> WorkflowType \<Rightarrow> json \<Rightarrow> json result" where
  "processArtifacts y addon grp wt workflowStepObject =
     (case workflowStepObject of
        JMap step \<Rightarrow>
          (case NestedFieldNoCopy (JMap step) [''arguments'', ''artifacts''] of
             Found JNull \<Rightarrow> Ok (JMap step)
           | Found (JList artifacts) \<Rightarrow>
               (case forEach (processArtifact y addon grp wt) artifacts of
                  Ok artifacts1 \<Rightarrow>
                    Ok (JMap (setNestedField step (JList artifacts1) [''arguments'', ''artifacts'']))
                | Failure e \<Rightarrow> Failure e
                | Panic \<Rightarrow> Panic)
           | Found _ \<Rightarrow> Panic
           | _ \<Rightarrow> Ok (JMap step))
      | _ \<Rightarrow> Panic)"

text \<open>The loop over the groups of steps of one template.\<close>

definition processSteps :: "Yaml \<Rightarrow> Addon \<Rightarrow> string \<Rightarrow> WorkflowType \<Rightarrow> json \<Rightarrow> json result" where
  "processSteps y addon grp wt steps =
     (case steps of
        JList ss \<Rightarrow>
          (case forEach (processArtifacts y addon grp wt) ss of
             Ok ss1 \<Rightarrow> Ok (JList ss1) | Failure e \<Rightarrow> Failure e | Panic \<Rightarrow> Panic)
      | _ \<Rightarrow> Panic)"

definition processTemplate :: "Yaml \<Rightarrow> Addon \<Rightarrow> string \<Rightarrow> WorkflowType \<Rightarrow> json \<Rightarrow> json result" where
  "processTemplate y addon grp wt template =
     (case template of
        JMap t \<Rightarrow>
          (case map_of t ''steps'' of
             None \<Rightarrow> Ok (JMap t)
           | Some (JList allSteps) \<Rightarrow>
               (case forEach (processSteps y addon grp wt) allSteps of
                  Ok allSteps1 \<Rightarrow> Ok (JMap (put ''steps'' (JList allSteps1) t))
                | Failure e \<Rightarrow> Failure e
                | Panic \<Rightarrow> Panic)
           | Some _ \<Rightarrow> Panic)
      | _ \<Rightarrow> Panic)"

text \<open>
  \<open>configureWorkflowArtifacts\<close>: \<open>spec\<close> first, then every step of every template;
  \<open>spec.templates\<close> is a list (unchecked).
\<close>

definition configureWorkflowArtifacts ::
    "Yaml \<Rightarrow> Addon \<Rightarrow> string \<Rightarrow> obj \<Rightarrow> WorkflowType \<Rightarrow> obj result" where
  "configureWorkflowArtifacts y addon grp wf0 wt =
     (case processArtifacts y addon grp wt (index wf0 ''spec'') of
        Ok spec1 \<Rightarrow>
          (let wf1 = put ''spec'' spec1 wf0 in
           case NestedFieldNoCopy (JMap wf1) [''spec'', ''templates''] of
             Found (JList templates) \<Rightarrow>
               (case forEach (processTemplate y addon grp wt) templates of
                  Ok templates1 \<Rightarrow>
                    Ok (setNestedField wf1 (JList templates1) [''spec'', ''templates''])
                | Failure e \<Rightarrow> Failure e
                | Panic \<Rightarrow> Panic)
           | _ \<Rightarrow> Panic)
      | Failure e \<Rightarrow> Failure e
      | Panic \<Rightarrow> Panic)"

section \<open>The backing store\<close>

text \<open>
  The store holds the workflows of all namespaces; \<open>events\<close> are the events sent to
  the recorder (workflow name and namespace). The clients, the scheme and the clock
  library are not part of the repository: their failures are switches of the
  environment, one for each call, and \<open>ParseRFC3339\<close> stands for
  \<open>time.Parse(time.RFC3339, _)\<close>, giving the instant as its distance from the zero
  \<open>time.Time\<close>.
\<close>

record World =
  items :: "obj list"
  events :: "(string \<times> string) list"

record Env =
  yaml :: Yaml
  AddonGroup :: string
  rangeOrder :: "string list \<times> string list"
  ParseRFC3339 :: "string \<Rightarrow> int option"
  getFails :: bool
  listFails :: bool
  convertFails :: bool
  ownerReferenceFails :: bool
  createFails :: bool
  dynGetFails :: bool
  deleteFails :: "string \<Rightarrow> bool"

definition named :: "string \<Rightarrow> string \<Rightarrow> obj \<Rightarrow> bool" where
  "named ns n w \<longleftrightarrow> GetNamespace w = ns \<and> GetName w = n"

text \<open>\<open>findWorkflowByName\<close>: not found is \<open>nil, nil\<close>.\<close>

definition findWorkflowByName :: "Env \<Rightarrow> World \<Rightarrow> string \<times> string \<Rightarrow> obj option result" where
  "findWorkflowByName env world nn =
     (if getFails env then Failure ClientError
      else Ok (find (named (fst nn) (snd nn)) (items world)))"

text \<open>\<open>Delete\<close>: the error of the client, if any, and the store afterwards.\<close>

definition Delete :: "Env \<Rightarrow> Addon \<Rightarrow> World \<Rightarrow> string \<Rightarrow> error option \<times> World" where
  "Delete env addon world name =
     (if deleteFails env name then (Some ClientError, world)
      else if \<not> (\<exists>w \<in> set (items world). named (AddonNamespace addon) name w)
      then (Some NotFound, world)
      else (None, world\<lparr>items := filter (\<lambda>w. \<not> named (AddonNamespace addon) name w) (items world)\<rparr>))"

section \<open>Collision Resolver\<close>

text \<open>
  The first loop of \<open>deleteCollisionWorkflows\<close>, which looks for the workflow of the
  addon that started last. It ends early when a workflow of the addon has no status
  (\<open>NoStatus\<close>: the function returns \<open>false, nil\<close>) or a start time that does not
  parse; \<open>status\<close> and \<open>startedAt\<close> are read with unchecked assertions.
\<close>

datatype scan = Scanned int "obj option" | NoStatus | ScanFailure error | ScanPanic

fun mostRecent :: "Env \<Rightarrow> Addon \<Rightarrow> int \<Rightarrow> obj option \<Rightarrow> obj list \<Rightarrow> scan" where
  "mostRecent env addon mostRecentWorkflowTime mostRecentWorkflow [] =
     Scanned mostRecentWorkflowTime mostRecentWorkflow"
| "mostRecent env addon mostRecentWorkflowTime mostRecentWorkflow (workflow # rest) =
     (if Contains (GetName workflow) (Name addon) then
        (case index workflow ''status'' of
           JNull \<Rightarrow> NoStatus
         | JMap status \<Rightarrow>
             (case index status ''startedAt'' of
                JStr startedAt \<Rightarrow>
                  (case ParseRFC3339 env startedAt of
                     None \<Rightarrow> ScanFailure (TimeParse startedAt)
                   | Some t \<Rightarrow>
                       if \<not> t < mostRecentWorkflowTime
                       then mostRecent env addon t (Some workflow) rest
                       else mostRecent env addon mostRecentWorkflowTime mostRecentWorkflow rest)
              | _ \<Rightarrow> ScanPanic)
         | _ \<Rightarrow> ScanPanic)
      else mostRecent env addon mostRecentWorkflowTime mostRecentWorkflow rest)"

text \<open>
  The second loop, over every listed workflow: \<open>status\<close> and \<open>phase\<close> are read with
  unchecked assertions before the name is looked at; the error of \<open>Delete\<close> is
  dropped. The result is the flag \<open>deleted\<close>, or a panic, and the store.
\<close>

fun deleteLoop :: "Env \<Rightarrow> Addon \<Rightarrow> bool \<Rightarrow> World \<Rightarrow> obj list \<Rightarrow> bool result \<times> World" where
  "deleteLoop env addon deleted world [] = (Ok deleted, world)"
| "deleteLoop env addon deleted world (workflow # rest) =
     (case index workflow ''status'' of
        JMap status \<Rightarrow>
          (case index status ''phase'' of
             JStr phase \<Rightarrow>
               if Contains (GetName workflow) (Checksum addon) \<and> phase \<noteq> ''Pending''
               then deleteLoop env addon True (snd (Delete env addon world (GetName workflow))) rest
               else deleteLoop env addon deleted world rest
           | _ \<Rightarrow> (Panic, world))
      | _ \<Rightarrow> (Panic, world))"

text \<open>\<open>dynClient.Resource(WorkflowGVR).Namespace(ns).List\<close>: the workflows of a namespace.\<close>

definition listWorkflows :: "World \<Rightarrow> string \<Rightarrow> obj list" where
  "listWorkflows world ns = filter (\<lambda>w. GetNamespace w = ns) (items world)"

text \<open>\<open>deleteCollisionWorkflows\<close>. Its argument, the workflow found, is not used.\<close>

definition deleteCollisionWorkflows :: "Env \<Rightarrow> Addon \<Rightarrow> World \<Rightarrow> obj \<Rightarrow> bool result \<times> World" where
  "deleteCollisionWorkflows env addon world wfv1 =
     (if listFails env then (Failure ListFailed, world)
      else
        let workflows = listWorkflows world (AddonNamespace addon)
        in (case mostRecent env addon 0 None workflows of
              NoStatus \<Rightarrow> (Ok False, world)
            | ScanFailure e \<Rightarrow> (Failure e, world)
            | ScanPanic \<Rightarrow> (Panic, world)
            | Scanned t None \<Rightarrow> (Ok False, world)
            | Scanned t (Some mostRecentWorkflow) \<Rightarrow>
                if \<not> Contains (GetName mostRecentWorkflow) (Checksum addon)
                then deleteLoop env addon False world workflows
                else (Ok False, world)))"

text \<open>
  The workflows that the second loop deletes, when it reaches them: the name contains
  the checksum of the addon and the phase is a string other than "Pending".
\<close>

definition stale :: "Addon \<Rightarrow> obj \<Rightarrow> bool" where
  "stale addon w \<longleftrightarrow>
     Contains (GetName w) (Checksum addon) \<and> backend_phase w \<noteq> None \<and>
     backend_phase w \<noteq> Some ''Pending''"

text \<open>The names for which \<open>Delete\<close> is called and does not fail.\<close>

definition deletedNames :: "Env \<Rightarrow> Addon \<Rightarrow> obj list \<Rightarrow> string list" where
  "deletedNames env addon ws =
     map GetName (filter (\<lambda>w. stale addon w \<and> \<not> deleteFails env (GetName w)) ws)"

section \<open>Submission Engine\<close>

text \<open>
  The owner reference that \<open>SetControllerReference\<close> adds for the addon, then the loop
  that clears \<open>controller\<close> on the references whose kind is "addon" in lower case. A
  reference of that kind without a \<open>controller\<close> field has a \<open>nil\<close> pointer there and
  the assignment through it panics. The failures of \<open>SetControllerReference\<close> (no
  kind known for the owner, another controller among the references) are the switch
  \<open>ownerReferenceFails\<close>; otherwise the reference joins those that the workflow has.
  \<open>GetOwnerReferences\<close> reads the entries of \<open>metadata.ownerReferences\<close> that are
  maps; a workflow rendered by \<open>parse\<close> has none.
\<close>

definition controllerRef :: "Addon \<Rightarrow> json" where
  "controllerRef addon =
     JMap [(''apiVersion'', JStr (AddonAPIVersion addon)), (''kind'', JStr (AddonKind addon)),
           (''name'', JStr (Name addon)), (''uid'', JStr (UID addon)),
           (''controller'', JBool True), (''blockOwnerDeletion'', JBool True)]"

definition GetOwnerReferences :: "obj \<Rightarrow> json list" where
  "GetOwnerReferences u =
     (case NestedFieldNoCopy (JMap u) [''metadata'', ''ownerReferences''] of
        Found (JList refs) \<Rightarrow> filter (\<lambda>r. case r of JMap _ \<Rightarrow> True | _ \<Rightarrow> False) refs
      | _ \<Rightarrow> [])"

definition clearController :: "json \<Rightarrow> json result" where
  "clearController r =
     (case r of
        JMap ref \<Rightarrow>
          if map toLower (getNestedString ref [''kind'']) = ''addon'' then
            (case map_of ref ''controller'' of
               Some (JBool b) \<Rightarrow> Ok (JMap (put ''controller'' (JBool False) ref))
             | _ \<Rightarrow> Panic)
          else Ok (JMap ref)
      | _ \<Rightarrow> Ok r)"

text \<open>
  The creation branch of \<open>submit\<close>: the copy of the rendered workflow gets its
  identity, namespace and name, the owner reference with \<open>controller\<close> cleared, and
  is created; an event records the creation.
\<close>

definition createWorkflow :: "Env \<Rightarrow> Addon \<Rightarrow> World \<Rightarrow> obj \<Rightarrow> ApplicationAssemblyPhase result \<times> World" where
  "createWorkflow env addon world wp =
     (if convertFails env then (Failure ConvertFailed, world)
      else
        let wfv1 = SetName (GetName wp) (SetNamespace (GetNamespace wp)
                     (SetGroupVersionKind_Workflow wp))
        in if ownerReferenceFails env then (Failure OwnerReferenceFailed, world)
           else
             let wfv2 = setNestedField wfv1
                          (JList (GetOwnerReferences wfv1 @ [controllerRef addon]))
                          [''metadata'', ''ownerReferences'']
             in (case forEach clearController (GetOwnerReferences wfv2) of
                   Ok ownerReferences \<Rightarrow>
                     (let wfv3 = setNestedField wfv2 (JList ownerReferences)
                                   [''metadata'', ''ownerReferences'']
                      in if createFails env then (Failure ClientError, world)
                         else (Ok Pending,
                               world\<lparr>items := items world @ [wfv3],
                                     events := events world @ [(GetName wp, GetNamespace wp)]\<rparr>))
                 | Failure e \<Rightarrow> (Failure e, world)
                 | Panic \<Rightarrow> (Panic, world)))"

text \<open>
  \<open>submit\<close>. Every error return of \<open>submit\<close> and of \<open>Install\<close> carries the phase
  \<open>Failed\<close>, so \<open>Failure e\<close> stands for \<open>(Failed, e)\<close> and \<open>Ok p\<close> for \<open>(p, nil)\<close>.
\<close>

definition submit :: "Env \<Rightarrow> Addon \<Rightarrow> World \<Rightarrow> obj \<Rightarrow> ApplicationAssemblyPhase result \<times> World" where
  "submit env addon world wp =
     (case findWorkflowByName env world (GetNamespace wp, GetName wp) of
        Failure e \<Rightarrow> (Failure e, world)
      | Panic \<Rightarrow> (Panic, world)
      | Ok None \<Rightarrow> createWorkflow env addon world wp
      | Ok (Some wfv1) \<Rightarrow>
          (case deleteCollisionWorkflows env addon world wfv1 of
             (Failure e, world1) \<Rightarrow> (Failure e, world1)
           | (Panic, world1) \<Rightarrow> (Panic, world1)
           | (Ok True, world1) \<Rightarrow> (Ok Pending, world1)
           | (Ok False, world1) \<Rightarrow>
               (if dynGetFails env then (Failure CouldNotFindWorkflow, world1)
                else (case find (named (GetNamespace wfv1) (GetName wfv1)) (items world1) of
                        None \<Rightarrow> (Failure CouldNotFindWorkflow, world1)
                      | Some workflow \<Rightarrow> (Ok (validate_status workflow), world1)))))"

text \<open>\<open>Install\<close>, on a fresh \<open>Unstructured\<close>.\<close>

definition Install :: "Env \<Rightarrow> Addon \<Rightarrow> World \<Rightarrow> WorkflowType \<Rightarrow> string \<Rightarrow> ApplicationAssemblyPhase result \<times> World" where
  "Install env addon world wt name =
     (case parse (yaml env) addon wt [] name of
        Failure e \<Rightarrow> (Failure (InvalidWorkflow e), world)
      | Panic \<Rightarrow> (Panic, world)
      | Ok wp \<Rightarrow>
          (case configureGlobalWFParameters (rangeOrder env) addon wp of
             Panic \<Rightarrow> (Panic, world)
           | Failure e \<Rightarrow> (Failure e, world)
           | Ok (False, wp1) \<Rightarrow> (Failure InvalidWorkflowParameter, world)
           | Ok (True, wp1) \<Rightarrow>
               (case configureWorkflowArtifacts (yaml env) addon (AddonGroup env) wp1 wt of
                  Failure e \<Rightarrow> (Failure e, world)
                | Panic \<Rightarrow> (Panic, world)
                | Ok wp2 \<Rightarrow> submit env addon world wp2)))"

text \<open>
  The keys of the four default labels, and the labels that a \<open>metadata\<close> map carries
  (none when \<open>labels\<close> is missing or is not a map).
\<close>

definition default_label_keys :: "string set" where
  "default_label_keys = {''app.kubernetes.io/name'', ''app.kubernetes.io/version'',
     ''app.kubernetes.io/part-of'', ''app.kubernetes.io/managed-by''}"

definition labels_of :: "obj \<Rightarrow> obj" where
  "labels_of md = (case map_of md ''labels'' of Some (JMap l) \<Rightarrow> l | _ \<Rightarrow> [])"



section \<open>Example values\<close>

definition ex_addon :: Addon where
  "ex_addon = \<lparr>Name = ''ev'', AddonNamespace = ''addons'', UID = ''u1'',
     AddonAPIVersion = ''addonmgr.keikoproj.io/v1alpha1'', AddonKind = ''Addon'',
     PkgVersion = ''v1'',
     Params = \<lparr>Namespace = ''ns1'',
       Context = \<lparr>ClusterName = ''c1'', ClusterRegion = ''us-west-2'',
         AdditionalConfigs = [''x'' \<mapsto> ''1'']\<rparr>,
       Data = [''y'' \<mapsto> ''2'']\<rparr>,
     Checksum = ''bbb''\<rparr>"

text \<open>
  A decoder that knows three templates: one with a time to live of zero, one without,
  and one whose \<open>spec.arguments\<close> is a string.
\<close>

definition ex_templates :: Yaml where
  "ex_templates = \<lparr>
     Unmarshal = (\<lambda>s.
       if s = ''ttl0'' then Some [(''spec'', JMap [(''ttlSecondsAfterFinished'', JFloat 0)])]
       else if s = ''plain'' then Some [(''spec'', JMap [(''templates'', JList [])])]
       else if s = ''badargs'' then Some [(''spec'', JMap [(''arguments'', JStr ''oops'')])]
       else None),
     Marshal = (\<lambda>r. None)\<rparr>"

definition ex_env :: Env where
  "ex_env = \<lparr>yaml = ex_templates, AddonGroup = ''addonmgr.keikoproj.io'',
     rangeOrder = ([''x''], [''y'']),
     ParseRFC3339 = (\<lambda>s. if s = ''2020-01-01T00:00:00Z'' then Some 1
                          else if s = ''2020-01-02T00:00:00Z'' then Some 2 else None),
     getFails = False, listFails = False, convertFails = False,
     ownerReferenceFails = False, createFails = False, dynGetFails = False,
     deleteFails = (\<lambda>n. False)\<rparr>"

definition ex_deployment :: obj where
  "ex_deployment =
     [(''kind'', JStr ''Deployment''),
      (''metadata'', JMap [(''name'', JStr ''web''), (''labels'', JMap [(''tier'', JStr ''front'')])]),
      (''spec'', JMap [(''replicas'', JFloat 2)])]"

definition ex_configmap :: obj where
  "ex_configmap =
     [(''kind'', JStr ''ConfigMap''), (''metadata'', JMap [(''name'', JStr ''settings'')])]"

definition ex_bad_metadata :: obj where
  "ex_bad_metadata = [(''kind'', JStr ''Deployment''), (''metadata'', JStr ''x'')]"

definition ex_role :: WorkflowType where
  "ex_role = \<lparr>Template = ''plain'', Role = ''arn:aws:iam::1:role/ev''\<rparr>"

text \<open>A stored workflow of the namespace \<open>addons\<close> with a status, and one without.\<close>

definition workflow :: "string \<Rightarrow> string \<Rightarrow> string \<Rightarrow> obj" where
  "workflow n ph t =
     [(''metadata'', JMap [(''namespace'', JStr ''addons''), (''name'', JStr n)]),
      (''status'', JMap [(''phase'', JStr ph), (''startedAt'', JStr t)])]"

definition unstarted :: "string \<Rightarrow> obj" where
  "unstarted n = [(''metadata'', JMap [(''namespace'', JStr ''addons''), (''name'', JStr n)])]"

definition wf_A :: obj where
  "wf_A = workflow ''ev-install-aaa-wf'' ''Succeeded'' ''2020-01-01T00:00:00Z''"

definition wf_A_pending :: obj where
  "wf_A_pending = workflow ''ev-install-aaa-wf'' ''Pending'' ''2020-01-01T00:00:00Z''"

definition wf_B :: obj where
  "wf_B = workflow ''ev-install-bbb-wf'' ''Succeeded'' ''2020-01-02T00:00:00Z''"








section \<open>Facts about maps and nested fields\<close>

lemma map_of_put [simp]: "map_of (put k v m) = (map_of m)(k \<mapsto> v)"
  by (induction m) (auto simp: fun_eq_iff)

lemma index_put [simp]: "index (put k v m) k' = (if k' = k then v else index m k')"
  by (simp add: index_def)

lemma index_Nil [simp]: "index [] k = JNull"
  by (simp add: index_def)

lemma index_Cons [simp]: "index ((k, v) # m) k' = (if k = k' then v else index m k')"
  by (simp add: index_def)

lemma index_map_of: "index m k = v \<Longrightarrow> v \<noteq> JNull \<Longrightarrow> map_of m k = Some v"
  by (auto simp: index_def split: option.splits)

lemma put_put [simp]: "put k v (put k w m) = put k v m"
  by (induction m) auto


section \<open>Parameter Injector: what is appended\<close>

lemma configure_cases:
  "configureGlobalWFParameters ord addon wf0 =
     (case index wf0 ''spec'' of
        JMap spec \<Rightarrow>
          (case index spec ''arguments'' of
             JNull \<Rightarrow> Ok (True, put ''spec'' (JMap (put ''arguments''
                        (JMap [(''parameters'', JList (appended ord addon))]) spec)) wf0)
           | JMap a \<Rightarrow>
               (case index a ''parameters'' of
                  JNull \<Rightarrow> Ok (True, put ''spec'' (JMap (put ''arguments''
                        (JMap (put ''parameters'' (JList (appended ord addon)) a)) spec)) wf0)
                | JList l \<Rightarrow> Ok (True, put ''spec'' (JMap (put ''arguments''
                        (JMap (put ''parameters'' (JList (l @ appended ord addon)) a)) spec)) wf0)
                | _ \<Rightarrow> Panic)
           | _ \<Rightarrow> Panic)
      | _ \<Rightarrow> Panic)"
  by (auto simp: configureGlobalWFParameters_def Let_def index_map_of split: json.splits)

lemma configure_Ok:
  assumes "configureGlobalWFParameters ord addon wf0 = Ok (b, w)"
  shows "b \<and> NestedFieldNoCopy (JMap w) [''spec'', ''arguments'', ''parameters'']
            = Found (JList (wfParams_of wf0 @ appended ord addon))"
  using assms
  by (auto simp: configure_cases wfParams_of_def index_def split: json.splits option.splits)

lemma param_inject [simp]: "param k v = param k' v' \<longleftrightarrow> k = k' \<and> v = v'"
  by (auto simp: param_def)

lemma count_rangeEntries:
  assumes "distinct ks"
  shows "count_list (rangeEntries m ks) (param k v) =
           (if k \<in> set ks \<and> (case m k of None \<Rightarrow> [] | Some x \<Rightarrow> x) = v then 1 else 0)"
  using assms by (induction ks) (auto simp: rangeEntries_def)

lemma range_entries_once:
  assumes "range_order m ks"
  shows "count_list (rangeEntries m ks) (param k v) = (if m k = Some v then 1 else 0)"
    and "\<forall>e \<in> set (rangeEntries m ks). \<exists>k v. e = param k v \<and> m k = Some v"
proof -
  from assms have d: "distinct ks" and s: "set ks = dom m"
    by (simp_all add: range_order_def)
  show "count_list (rangeEntries m ks) (param k v) = (if m k = Some v then 1 else 0)"
    using s by (auto simp: count_rangeEntries [OF d] dom_def split: option.splits)
  show "\<forall>e \<in> set (rangeEntries m ks). \<exists>k v. e = param k v \<and> m k = Some v"
    using s by (auto simp: rangeEntries_def dom_def split: option.splits)
qed

lemma contextEntries_eq:
  "contextEntries c = [param ''clusterName'' (ClusterName c), param ''clusterRegion'' (ClusterRegion c)]"
  by (simp add: contextEntries_def ClusterContext_fields_def jsonTag_def)

text \<open>
  The injector returns, with \<open>true\<close>, exactly when \<open>spec\<close> is a map, \<open>spec.arguments\<close>
  is a map or missing, and \<open>spec.arguments.parameters\<close> is a list or missing.
\<close>

lemma configure_returns:
  "(\<exists>b w. configureGlobalWFParameters ord addon wf0 = Ok (b, w)) \<longleftrightarrow>
     (\<exists>spec. index wf0 ''spec'' = JMap spec \<and>
        (index spec ''arguments'' = JNull \<or>
         (\<exists>a. index spec ''arguments'' = JMap a \<and>
            (index a ''parameters'' = JNull \<or> (\<exists>l. index a ''parameters'' = JList l)))))"
  by (auto simp: configure_cases split: json.splits)

text \<open>
  Claim C4. Whenever the Parameter Injector returns, it returns \<open>true\<close> and
  \<open>spec.arguments.parameters\<close> is the list the workflow had, followed by: the entry
  \<open>namespace\<close> with the namespace of the parameters; the entries \<open>clusterName\<close> and
  \<open>clusterRegion\<close>, the string fields of the context in declaration order under their
  serialization names (the map field of the context gives no entry here); a segment
  with one entry for each binding of the additional configs and no other entry; a
  segment with one entry for each binding of the data map and no other entry. The
  order inside the two segments is the order in which the run iterates the maps, any
  order at all. For the parameters \<open>{namespace: ns1, context: {clusterName: c1,
  clusterRegion: us-west-2}}\<close> the first three appended entries are therefore
  \<open>{namespace, ns1}\<close>, \<open>{clusterName, c1}\<close>, \<open>{clusterRegion, us-west-2}\<close>.
\<close>

theorem configureGlobalWFParameters_appends:
  assumes "configureGlobalWFParameters (ks1, ks2) addon wf0 = Ok (b, w)"
    and "range_order (AdditionalConfigs (Context (Params addon))) ks1"
    and "range_order (Data (Params addon)) ks2"
  shows "\<exists>seg1 seg2.
      b \<and>
      NestedFieldNoCopy (JMap w) [''spec'', ''arguments'', ''parameters''] =
        Found (JList (wfParams_of wf0 @
          [param ''namespace'' (Namespace (Params addon)),
           param ''clusterName'' (ClusterName (Context (Params addon))),
           param ''clusterRegion'' (ClusterRegion (Context (Params addon)))]
          @ seg1 @ seg2)) \<and>
      (\<forall>k v. count_list seg1 (param k v) =
          (if AdditionalConfigs (Context (Params addon)) k = Some v then 1 else 0)) \<and>
      (\<forall>e \<in> set seg1. \<exists>k v. e = param k v \<and>
          AdditionalConfigs (Context (Params addon)) k = Some v) \<and>
      (\<forall>k v. count_list seg2 (param k v) =
          (if Data (Params addon) k = Some v then 1 else 0)) \<and>
      (\<forall>e \<in> set seg2. \<exists>k v. e = param k v \<and> Data (Params addon) k = Some v)"
proof -
  let ?seg1 = "rangeEntries (AdditionalConfigs (Context (Params addon))) ks1"
  let ?seg2 = "rangeEntries (Data (Params addon)) ks2"
  have app: "appended (ks1, ks2) addon =
      [param ''namespace'' (Namespace (Params addon)),
       param ''clusterName'' (ClusterName (Context (Params addon))),
       param ''clusterRegion'' (ClusterRegion (Context (Params addon)))] @ ?seg1 @ ?seg2"
    by (simp add: appended_def contextEntries_eq)
  from configure_Ok [OF assms(1)] have b and
    "NestedFieldNoCopy (JMap w) [''spec'', ''arguments'', ''parameters''] =
       Found (JList (wfParams_of wf0 @ appended (ks1, ks2) addon))"
    by simp_all
  with app range_entries_once [OF assms(2)] range_entries_once [OF assms(3)]
  show ?thesis by (intro exI [of _ ?seg1] exI [of _ ?seg2]) simp
qed

theorem configureGlobalWFParameters_appends_witness:
  "configureGlobalWFParameters ([''x''], [''y'']) ex_addon [(''spec'', JMap [])] =
     Ok (True, [(''spec'', JMap [(''arguments'', JMap [(''parameters'', JList
        [param ''namespace'' ''ns1'', param ''clusterName'' ''c1'',
         param ''clusterRegion'' ''us-west-2'', param ''x'' ''1'', param ''y'' ''2''])])])])
   \<and> range_order (AdditionalConfigs (Context (Params ex_addon))) [''x'']
   \<and> range_order (Data (Params ex_addon)) [''y'']
   \<and> (\<exists>seg1 seg2. NestedFieldNoCopy (JMap [(''spec'', JMap [(''arguments'', JMap [(''parameters'', JList
        [param ''namespace'' ''ns1'', param ''clusterName'' ''c1'',
         param ''clusterRegion'' ''us-west-2'', param ''x'' ''1'', param ''y'' ''2''])])])])
         [''spec'', ''arguments'', ''parameters''] =
        Found (JList ([param ''namespace'' ''ns1'', param ''clusterName'' ''c1'',
         param ''clusterRegion'' ''us-west-2''] @ seg1 @ seg2)))"
proof -
  have c: "configureGlobalWFParameters ([''x''], [''y'']) ex_addon [(''spec'', JMap [])] =
     Ok (True, [(''spec'', JMap [(''arguments'', JMap [(''parameters'', JList
        [param ''namespace'' ''ns1'', param ''clusterName'' ''c1'',
         param ''clusterRegion'' ''us-west-2'', param ''x'' ''1'', param ''y'' ''2''])])])])"
    by (simp add: configureGlobalWFParameters_def appended_def contextEntries_eq
          rangeEntries_def ex_addon_def)
  have r1: "range_order (AdditionalConfigs (Context (Params ex_addon))) [''x'']"
    by (simp add: range_order_def ex_addon_def)
  have r2: "range_order (Data (Params ex_addon)) [''y'']"
    by (simp add: range_order_def ex_addon_def)
  from configureGlobalWFParameters_appends [OF c r1 r2] c r1 r2
  show ?thesis by (auto simp: wfParams_of_def ex_addon_def)
qed

section \<open>Template Renderer: the default time to live\<close>

text \<open>
  Claim C3. When \<open>parse\<close> succeeds the template decoded to a document whose \<open>spec\<close> is
  a map, and in the rendered workflow \<open>spec.ttlSecondsAfterFinished\<close> is 259200 when
  the decoded \<open>spec\<close> has no such field (the key is missing, or it is bound to \<open>null\<close>,
  which a Go map lookup does not tell apart from a missing key), and is the value
  of the template, unchanged, when the template gives one; the number zero is such a
  value.
\<close>

theorem parse_ttl:
  assumes "parse y addon wt wf0 name = Ok w"
  shows "\<exists>data spec.
      Unmarshal y (Template wt) = Some data \<and> map_of data ''spec'' = Some (JMap spec) \<and>
      (index spec ''ttlSecondsAfterFinished'' = JNull \<longrightarrow>
         NestedFieldNoCopy (JMap w) [''spec'', ''ttlSecondsAfterFinished''] = Found (JInt 259200)) \<and>
      (\<forall>v. map_of spec ''ttlSecondsAfterFinished'' = Some v \<and> v \<noteq> JNull \<longrightarrow>
         NestedFieldNoCopy (JMap w) [''spec'', ''ttlSecondsAfterFinished''] = Found v)"
proof -
  from assms obtain data spec where
    d: "Unmarshal y (Template wt) = Some data" "map_of data ''spec'' = Some (JMap spec)"
    by (auto simp: parse_def Let_def split: option.splits json.splits)
  with assms have
    "w = put ''spec'' (JMap (if index spec ''ttlSecondsAfterFinished'' = JNull
                             then put ''ttlSecondsAfterFinished'' (JInt 259200) spec else spec))
           (SetName name (SetNamespace (AddonNamespace addon) (SetGroupVersionKind_Workflow wf0)))"
    by (simp add: parse_def Let_def)
  then have
    "index spec ''ttlSecondsAfterFinished'' = JNull \<longrightarrow>
       NestedFieldNoCopy (JMap w) [''spec'', ''ttlSecondsAfterFinished''] = Found (JInt 259200)"
    "\<forall>v. map_of spec ''ttlSecondsAfterFinished'' = Some v \<and> v \<noteq> JNull \<longrightarrow>
       NestedFieldNoCopy (JMap w) [''spec'', ''ttlSecondsAfterFinished''] = Found v"
    by (auto simp: index_def)
  with d show ?thesis by blast
qed

theorem parse_ttl_witness:
  "parse ex_templates ex_addon \<lparr>Template = ''ttl0'', Role = []\<rparr> [] ''ev-install-bbb-wf'' =
     Ok [(''apiVersion'', JStr ''argoproj.io/v1alpha1''), (''kind'', JStr ''Workflow''),
         (''metadata'', JMap [(''namespace'', JStr ''addons''), (''name'', JStr ''ev-install-bbb-wf'')]),
         (''spec'', JMap [(''ttlSecondsAfterFinished'', JFloat 0)])]
   \<and> NestedFieldNoCopy (JMap [(''apiVersion'', JStr ''argoproj.io/v1alpha1''), (''kind'', JStr ''Workflow''),
         (''metadata'', JMap [(''namespace'', JStr ''addons''), (''name'', JStr ''ev-install-bbb-wf'')]),
         (''spec'', JMap [(''ttlSecondsAfterFinished'', JFloat 0)])])
        [''spec'', ''ttlSecondsAfterFinished''] = Found (JFloat 0)
   \<and> (\<exists>w. parse ex_templates ex_addon \<lparr>Template = ''plain'', Role = []\<rparr> [] ''ev-install-bbb-wf'' = Ok w
        \<and> NestedFieldNoCopy (JMap w) [''spec'', ''ttlSecondsAfterFinished''] = Found (JInt 259200))"
proof -
  have p: "parse ex_templates ex_addon \<lparr>Template = ''ttl0'', Role = []\<rparr> [] ''ev-install-bbb-wf'' =
     Ok [(''apiVersion'', JStr ''argoproj.io/v1alpha1''), (''kind'', JStr ''Workflow''),
         (''metadata'', JMap [(''namespace'', JStr ''addons''), (''name'', JStr ''ev-install-bbb-wf'')]),
         (''spec'', JMap [(''ttlSecondsAfterFinished'', JFloat 0)])]"
    by (simp add: parse_def ex_templates_def ex_addon_def SetName_def SetNamespace_def
          SetGroupVersionKind_Workflow_def setNestedField_def)
  have q: "parse ex_templates ex_addon \<lparr>Template = ''plain'', Role = []\<rparr> [] ''ev-install-bbb-wf'' =
     Ok [(''apiVersion'', JStr ''argoproj.io/v1alpha1''), (''kind'', JStr ''Workflow''),
         (''metadata'', JMap [(''namespace'', JStr ''addons''), (''name'', JStr ''ev-install-bbb-wf'')]),
         (''spec'', JMap [(''templates'', JList []), (''ttlSecondsAfterFinished'', JInt 259200)])]"
    by (simp add: parse_def ex_templates_def ex_addon_def SetName_def SetNamespace_def
          SetGroupVersionKind_Workflow_def setNestedField_def)
  from parse_ttl [OF p] parse_ttl [OF q] p q show ?thesis by simp
qed

section \<open>Artifact Post-Processor: labels and the role annotation\<close>

lemma SetNestedField_read:
  "SetNestedField m v fs = Some m' \<Longrightarrow> NestedFieldNoCopy (JMap m') fs = Found v"
proof (induction m v fs arbitrary: m' rule: SetNestedField.induct)
  case (1 m v) then show ?case by simp
next
  case (2 m v f) then show ?case by auto
next
  case (3 m v f g fs)
  then show ?case
    by (auto split: option.splits json.splits)
qed


lemma labels_cases:
  "addDefaultLabelsToResource addon grp r =
     (case map_of r ''metadata'' of
        None \<Rightarrow> Panic
      | Some (JMap md) \<Rightarrow>
          Ok (put ''metadata'' (JMap (put ''labels''
               (JMap (put ''app.kubernetes.io/managed-by'' (JStr grp)
                 (put ''app.kubernetes.io/part-of'' (JStr (Name addon))
                   (put ''app.kubernetes.io/version'' (JStr (PkgVersion addon))
                     (put ''app.kubernetes.io/name'' (JStr (Name addon)) (labels_of md))))))
               md)) r)
      | Some _ \<Rightarrow> Failure NestedAccessor)"
  by (auto simp: addDefaultLabelsToResource_def NestedMap_def Let_def labels_of_def
        split: option.splits json.splits nested.splits)

text \<open>
  Claim C6, as the code has it. For every document whose \<open>kind\<close> is one of
  StatefulSet, Deployment, DaemonSet, ReplicaSet and Service and whose \<open>metadata\<close> is a
  map, the label step succeeds; in its result \<open>metadata.labels\<close> binds the four keys
  \<open>app.kubernetes.io/name\<close>, \<open>version\<close>, \<open>part-of\<close> and \<open>managed-by\<close> to the addon's name,
  its package version, its name and the group; every other label key is bound as it
  was in the labels the document had; every field of \<open>metadata\<close> other than \<open>labels\<close>
  and every field of the document other than \<open>metadata\<close> is as it was. The step is
  all that post-processing does to such a document when no role is given.
\<close>

theorem addDefaultLabelsToResource_merge:
  assumes "index r ''kind'' = JStr kind" and "labelled_kind kind"
    and "map_of r ''metadata'' = Some (JMap md)"
  shows "\<exists>r1 md1 l1.
      addDefaultLabelsToResource addon grp r = Ok r1 \<and>
      patchResource addon grp wt r =
        (if Role wt \<noteq> [] then addRoleAnnotateToResource r1 wt else Ok r1) \<and>
      map_of r1 ''metadata'' = Some (JMap md1) \<and>
      map_of md1 ''labels'' = Some (JMap l1) \<and>
      map_of l1 ''app.kubernetes.io/name'' = Some (JStr (Name addon)) \<and>
      map_of l1 ''app.kubernetes.io/version'' = Some (JStr (PkgVersion addon)) \<and>
      map_of l1 ''app.kubernetes.io/part-of'' = Some (JStr (Name addon)) \<and>
      map_of l1 ''app.kubernetes.io/managed-by'' = Some (JStr grp) \<and>
      (\<forall>k. k \<notin> default_label_keys \<longrightarrow> map_of l1 k = map_of (labels_of md) k) \<and>
      (\<forall>k. k \<noteq> ''labels'' \<longrightarrow> map_of md1 k = map_of md k) \<and>
      (\<forall>k. k \<noteq> ''metadata'' \<longrightarrow> map_of r1 k = map_of r k)"
  using assms
  by (simp add: labels_cases patchResource_def default_label_keys_def)

theorem addDefaultLabelsToResource_merge_witness:
  "index ex_deployment ''kind'' = JStr ''Deployment'' \<and> labelled_kind ''Deployment''
   \<and> map_of ex_deployment ''metadata'' =
       Some (JMap [(''name'', JStr ''web''), (''labels'', JMap [(''tier'', JStr ''front'')])])
   \<and> addDefaultLabelsToResource ex_addon ''g'' ex_deployment =
       Ok [(''kind'', JStr ''Deployment''),
           (''metadata'', JMap [(''name'', JStr ''web''),
              (''labels'', JMap [(''tier'', JStr ''front''),
                 (''app.kubernetes.io/name'', JStr ''ev''),
                 (''app.kubernetes.io/version'', JStr ''v1''),
                 (''app.kubernetes.io/part-of'', JStr ''ev''),
                 (''app.kubernetes.io/managed-by'', JStr ''g'')])]),
           (''spec'', JMap [(''replicas'', JFloat 2)])]"
  using addDefaultLabelsToResource_merge [of ex_deployment "''Deployment''"
      "[(''name'', JStr ''web''), (''labels'', JMap [(''tier'', JStr ''front'')])]"
      ex_addon "''g''" ex_role]
  by (simp add: ex_deployment_def labelled_kind_def labels_cases labels_of_def ex_addon_def)

theorem addDefaultLabelsToResource_counterexample:
  "index ex_bad_metadata ''kind'' = JStr ''Deployment'' \<and> labelled_kind ''Deployment''
   \<and> addDefaultLabelsToResource ex_addon ''g'' ex_bad_metadata = Failure NestedAccessor
   \<and> patchResource ex_addon ''g'' ex_role ex_bad_metadata = Failure NestedAccessor"
  by (simp add: ex_bad_metadata_def labelled_kind_def labels_cases patchResource_def)

lemma role_Ok:
  assumes "addRoleAnnotateToResource r wt = Ok r1"
  shows "\<exists>a. NestedMap r1 [''spec'', ''template'', ''metadata'', ''annotations''] = Found a \<and>
           map_of a ''iam.amazonaws.com/role'' = Some (JStr (Role wt))"
proof -
  from assms obtain r0 a where
    "SetNestedField r0 (JMap (put ''iam.amazonaws.com/role'' (JStr (Role wt)) a))
       [''spec'', ''template'', ''metadata'', ''annotations''] = Some r1"
    by (auto simp: addRoleAnnotateToResource_def Let_def simp del: SetNestedField.simps
          split: option.splits nested.splits prod.splits)
  from SetNestedField_read [OF this] show ?thesis
    by (simp add: NestedMap_def)
qed

text \<open>
  Claim C7, as the code has it. The role annotation is added inside the branch of
  the five kinds. When a role is given and the patching of a parsed document
  returns without an error, then: if the \<open>kind\<close> of the document is one of the five,
  \<open>spec.template.metadata.annotations\<close> is a map in the result (so the maps on the way
  exist) and binds \<open>iam.amazonaws.com/role\<close> to the role; if it is any other kind, the
  document is unchanged.
\<close>

theorem patchResource_role:
  assumes "Role wt \<noteq> []" and "patchResource addon grp wt r = Ok r1"
  shows "\<exists>kind. index r ''kind'' = JStr kind \<and>
     (labelled_kind kind \<longrightarrow>
        (\<exists>a. NestedMap r1 [''spec'', ''template'', ''metadata'', ''annotations''] = Found a \<and>
              map_of a ''iam.amazonaws.com/role'' = Some (JStr (Role wt)))) \<and>
     (\<not> labelled_kind kind \<longrightarrow> r1 = r)"
  using assms
  by (auto simp: patchResource_def dest: role_Ok split: json.splits result.splits if_splits)

theorem patchResource_role_witness:
  "Role ex_role \<noteq> [] \<and> labelled_kind ''Deployment''
   \<and> patchResource ex_addon ''g'' ex_role ex_deployment =
       Ok [(''kind'', JStr ''Deployment''),
           (''metadata'', JMap [(''name'', JStr ''web''),
              (''labels'', JMap [(''tier'', JStr ''front''),
                 (''app.kubernetes.io/name'', JStr ''ev''),
                 (''app.kubernetes.io/version'', JStr ''v1''),
                 (''app.kubernetes.io/part-of'', JStr ''ev''),
                 (''app.kubernetes.io/managed-by'', JStr ''g'')])]),
           (''spec'', JMap [(''replicas'', JFloat 2),
              (''template'', JMap [(''metadata'', JMap [(''annotations'',
                 JMap [(''iam.amazonaws.com/role'', JStr ''arn:aws:iam::1:role/ev'')])])])])]"
proof -
  have p: "patchResource ex_addon ''g'' ex_role ex_deployment =
       Ok [(''kind'', JStr ''Deployment''),
           (''metadata'', JMap [(''name'', JStr ''web''),
              (''labels'', JMap [(''tier'', JStr ''front''),
                 (''app.kubernetes.io/name'', JStr ''ev''),
                 (''app.kubernetes.io/version'', JStr ''v1''),
                 (''app.kubernetes.io/part-of'', JStr ''ev''),
                 (''app.kubernetes.io/managed-by'', JStr ''g'')])]),
           (''spec'', JMap [(''replicas'', JFloat 2),
              (''template'', JMap [(''metadata'', JMap [(''annotations'',
                 JMap [(''iam.amazonaws.com/role'', JStr ''arn:aws:iam::1:role/ev'')])])])])]"
    by (simp add: patchResource_def ex_deployment_def labelled_kind_def labels_cases
          labels_of_def ex_addon_def ex_role_def addRoleAnnotateToResource_def NestedMap_def)
  have r: "Role ex_role \<noteq> []" by (simp add: ex_role_def)
  from patchResource_role [OF r p] p r show ?thesis by (simp add: labelled_kind_def)
qed

theorem patchResource_role_counterexample:
  "Role ex_role \<noteq> [] \<and> index ex_configmap ''kind'' = JStr ''ConfigMap''
   \<and> patchResource ex_addon ''g'' ex_role ex_configmap = Ok ex_configmap
   \<and> NestedMap ex_configmap [''spec'', ''template'', ''metadata'', ''annotations''] = Missing"
  by (simp add: patchResource_def ex_configmap_def labelled_kind_def ex_role_def NestedMap_def)

section \<open>Parameter Injector: a wrong shape\<close>

lemma configure_never_false:
  "configureGlobalWFParameters ord addon wf0 \<noteq> Ok (False, w)"
  "configureGlobalWFParameters ord addon wf0 \<noteq> Failure e"
  by (auto simp: configure_cases split: json.splits)

text \<open>
  No error of the later steps is the one that \<open>Install\<close> makes for a failed
  injection.
\<close>

lemma forEach_Failure:
  "forEach f xs = Failure e \<Longrightarrow> \<exists>x \<in> set xs. f x = Failure e"
  by (induction xs) (auto split: result.splits)

lemma patchResource_errors:
  "patchResource addon grp wt r = Failure e \<Longrightarrow> e = NestedAccessor \<or> e = NotAMap"
  by (auto simp: patchResource_def labels_cases addRoleAnnotateToResource_def Let_def
           simp del: SetNestedField.simps
           split: json.splits if_splits result.splits option.splits nested.splits prod.splits)

lemma processResource_errors:
  "processResource y addon grp wt doc = Failure e \<Longrightarrow> e \<noteq> InvalidWorkflowParameter"
  by (auto simp: processResource_def dest: patchResource_errors split: option.splits result.splits)

lemma processArtifact_errors:
  "processArtifact y addon grp wt a = Failure e \<Longrightarrow> e \<noteq> InvalidWorkflowParameter"
  by (auto simp: processArtifact_def processData_def simp del: SetNestedField.simps
           dest!: forEach_Failure dest: processResource_errors
           split: json.splits result.splits option.splits)

lemma processArtifacts_errors:
  "processArtifacts y addon grp wt a = Failure e \<Longrightarrow> e \<noteq> InvalidWorkflowParameter"
  by (auto simp: processArtifacts_def dest!: forEach_Failure dest: processArtifact_errors
           split: json.splits result.splits nested.splits)

lemma processTemplate_errors:
  "processTemplate y addon grp wt a = Failure e \<Longrightarrow> e \<noteq> InvalidWorkflowParameter"
  by (auto simp: processTemplate_def processSteps_def
           dest!: forEach_Failure dest: processArtifacts_errors
           split: json.splits result.splits option.splits)

lemma configureWorkflowArtifacts_errors:
  "configureWorkflowArtifacts y addon grp w wt = Failure e \<Longrightarrow> e \<noteq> InvalidWorkflowParameter"
  by (auto simp: configureWorkflowArtifacts_def Let_def
           dest!: forEach_Failure dest: processArtifacts_errors processTemplate_errors
           split: json.splits result.splits nested.splits)

lemma mostRecent_errors:
  "mostRecent env addon t m ws = ScanFailure e \<Longrightarrow> e \<noteq> InvalidWorkflowParameter"
  by (induction ws arbitrary: t m) (auto split: if_splits json.splits option.splits)

lemma deleteLoop_errors:
  "fst (deleteLoop env addon d world ws) \<noteq> Failure e"
  by (induction ws arbitrary: d world) (auto split: json.splits)

lemma deleteCollision_errors:
  "deleteCollisionWorkflows env addon world w = (Failure e, world1) \<Longrightarrow> e \<noteq> InvalidWorkflowParameter"
  using deleteLoop_errors [of env addon False world "listWorkflows world (AddonNamespace addon)" e]
  by (auto simp: deleteCollisionWorkflows_def Let_def dest: mostRecent_errors
           split: if_splits scan.splits option.splits)

lemma clearController_errors: "clearController r \<noteq> Failure e"
  by (auto simp: clearController_def split: json.splits option.splits bool.splits)

lemma createWorkflow_errors:
  "createWorkflow env addon world wp = (Failure e, world1) \<Longrightarrow> e \<noteq> InvalidWorkflowParameter"
  by (auto simp: createWorkflow_def Let_def clearController_errors
           dest!: forEach_Failure split: if_splits result.splits)

lemma submit_errors:
  "submit env addon world wp = (Failure e, world1) \<Longrightarrow> e \<noteq> InvalidWorkflowParameter"
  by (auto simp: submit_def findWorkflowByName_def
           dest: createWorkflow_errors deleteCollision_errors
           split: if_splits result.splits option.splits prod.splits bool.splits)

lemma Install_errors:
  "fst (Install env addon world wt name) \<noteq> Failure InvalidWorkflowParameter"
proof
  assume a: "fst (Install env addon world wt name) = Failure InvalidWorkflowParameter"
  then obtain world1 where "Install env addon world wt name = (Failure InvalidWorkflowParameter, world1)"
    by (cases "Install env addon world wt name") auto
  then show False
    using configure_never_false
    by (auto simp: Install_def dest: submit_errors configureWorkflowArtifacts_errors
             split: result.splits prod.splits bool.splits)
qed

text \<open>
  Claim C8 fails on the code. A string at \<open>spec.arguments\<close>, or at
  \<open>spec.arguments.parameters\<close>, makes \<open>configureGlobalWFParameters\<close> panic at its
  unchecked type assertion, and \<open>Install\<close> with it; the injector never returns
  \<open>false\<close>, so \<open>Install\<close> never reports "invalid workflow parameter".
\<close>

theorem configureGlobalWFParameters_wrong_shape:
  "configureGlobalWFParameters ord addon [(''spec'', JMap [(''arguments'', JStr ''oops'')])] = Panic
   \<and> configureGlobalWFParameters ord addon
       [(''spec'', JMap [(''arguments'', JMap [(''parameters'', JStr ''oops'')])])] = Panic
   \<and> Install ex_env ex_addon \<lparr>items = [], events = []\<rparr>
       \<lparr>Template = ''badargs'', Role = []\<rparr> ''ev-install-bbb-wf'' = (Panic, \<lparr>items = [], events = []\<rparr>)
   \<and> (\<forall>ord addon wf0 w. configureGlobalWFParameters ord addon wf0 \<noteq> Ok (False, w))
   \<and> (\<forall>env addon world wt name.
         fst (Install env addon world wt name) \<noteq> Failure InvalidWorkflowParameter)"
proof -
  have "Install ex_env ex_addon \<lparr>items = [], events = []\<rparr>
       \<lparr>Template = ''badargs'', Role = []\<rparr> ''ev-install-bbb-wf'' = (Panic, \<lparr>items = [], events = []\<rparr>)"
    by (simp add: Install_def parse_def ex_env_def ex_templates_def configure_cases)
  moreover have "configureGlobalWFParameters ord addon
      [(''spec'', JMap [(''arguments'', JStr ''oops'')])] = Panic"
    by (simp add: configure_cases)
  moreover have "configureGlobalWFParameters ord addon
      [(''spec'', JMap [(''arguments'', JMap [(''parameters'', JStr ''oops'')])])] = Panic"
    by (simp add: configure_cases)
  ultimately show ?thesis
    using configure_never_false(1) Install_errors by blast
qed

section \<open>Status translation\<close>

lemma backend_phase_index:
  "backend_phase doc =
     (case index doc ''status'' of
        JMap st \<Rightarrow> (case index st ''phase'' of JStr s \<Rightarrow> Some s | _ \<Rightarrow> None)
      | _ \<Rightarrow> None)"
  by (auto simp: backend_phase_def NestedString_def index_def
           split: option.splits json.splits nested.splits)

text \<open>
  Claim C9. Status translation is a total function of the backend phase alone: the
  phase string "Succeeded" gives \<open>Succeeded\<close>, "Failed" gives \<open>Failed\<close>, and every
  other case gives \<open>Pending\<close>: the empty string, an unrecognised string, and an absent
  status or phase. The function returns a phase and nothing else, so it has no effect
  on the store.
\<close>

theorem validate_status_total:
  "validate_status doc =
     (if backend_phase doc = Some ''Succeeded'' then Succeeded
      else if backend_phase doc = Some ''Failed'' then Failed
      else Pending)
   \<and> validate_status [(''status'', JMap [(''phase'', JStr ''Succeeded'')])] = Succeeded
   \<and> validate_status [(''status'', JMap [(''phase'', JStr ''Failed'')])] = Failed
   \<and> validate_status [(''status'', JMap [(''phase'', JStr '''')])] = Pending
   \<and> validate_status [(''status'', JMap [(''phase'', JStr ''unknown-string'')])] = Pending
   \<and> validate_status [(''status'', JMap [(''phase'', JNull)])] = Pending
   \<and> validate_status [(''status'', JMap [])] = Pending
   \<and> validate_status [(''status'', JNull)] = Pending
   \<and> validate_status [] = Pending"
  by (auto simp: validate_status_def backend_phase_index index_def split: json.splits)

section \<open>Collision Resolver: what is deleted\<close>

lemma Delete_snd:
  "snd (Delete env addon world n) =
     (if deleteFails env n then world
      else world\<lparr>items := filter (\<lambda>x. \<not> named (AddonNamespace addon) n x) (items world)\<rparr>)"
proof -
  have "\<not> (\<exists>w \<in> set (items world). named (AddonNamespace addon) n w) \<Longrightarrow>
        filter (\<lambda>x. \<not> named (AddonNamespace addon) n x) (items world) = items world"
    by (induction "items world") (auto simp: filter_id_conv)
  then show ?thesis by (auto simp: Delete_def)
qed

lemma deleteLoop_step:
  "deleteLoop env addon d world (w # ws) =
     (case backend_phase w of
        None \<Rightarrow> (Panic, world)
      | Some ph \<Rightarrow>
          if stale addon w
          then deleteLoop env addon True (snd (Delete env addon world (GetName w))) ws
          else deleteLoop env addon d world ws)"
  by (auto simp: backend_phase_index stale_def split: json.splits)

lemma deleteLoop_Ok:
  assumes "\<forall>w \<in> set ws. backend_phase w \<noteq> None"
  shows "deleteLoop env addon d world ws =
     (Ok (d \<or> (\<exists>w \<in> set ws. stale addon w)),
      world\<lparr>items := filter (\<lambda>x. \<not> (GetNamespace x = AddonNamespace addon \<and>
                 GetName x \<in> set (deletedNames env addon ws))) (items world)\<rparr>)"
  using assms
proof (induction ws arbitrary: d world)
  case Nil
  then show ?case by (simp add: deletedNames_def)
next
  case (Cons w ws)
  then obtain ph where ph: "backend_phase w = Some ph" by auto
  from Cons.prems have rest: "\<forall>w \<in> set ws. backend_phase w \<noteq> None" by simp
  have eq: "world\<lparr>items := filter P xs\<rparr> = world\<lparr>items := filter Q xs\<rparr>"
    if "\<And>x. P x = Q x" for P Q and xs :: "obj list"
  proof -
    from that have "P = Q" by auto
    then show ?thesis by simp
  qed
  show ?case
    unfolding deleteLoop_step ph
    by (auto simp: Cons.IH [OF rest] Delete_snd deletedNames_def named_def intro!: eq)
qed

lemma deleteLoop_Panic:
  assumes "u \<in> set ws" and "backend_phase u = None"
  shows "fst (deleteLoop env addon d world ws) = Panic"
  using assms
proof (induction ws arbitrary: d world)
  case Nil
  then show ?case by simp
next
  case (Cons w ws)
  show ?case
  proof (cases "backend_phase w")
    case None
    then show ?thesis unfolding deleteLoop_step by simp
  next
    case (Some ph)
    with Cons.prems have "u \<in> set ws" by auto
    from Cons.IH [OF this Cons.prems(2)] Some show ?thesis
      unfolding deleteLoop_step by simp
  qed
qed

lemma deleteCollision_scanned:
  assumes "\<not> listFails env"
    and "mostRecent env addon 0 None (listWorkflows world (AddonNamespace addon)) = Scanned t (Some mr)"
  shows "deleteCollisionWorkflows env addon world wfv1 =
     (if \<not> Contains (GetName mr) (Checksum addon)
      then deleteLoop env addon False world (listWorkflows world (AddonNamespace addon))
      else (Ok False, world))"
  using assms by (simp add: deleteCollisionWorkflows_def)

lemma deletedNames_distinct:
  assumes "distinct (map GetName ws)" and "x \<in> set ws"
  shows "GetName x \<in> set (deletedNames env addon ws) \<longleftrightarrow>
           stale addon x \<and> \<not> deleteFails env (GetName x)"
proof -
  from assms(1) have "inj_on GetName (set ws)" by (simp add: distinct_map)
  with assms(2) show ?thesis
    by (auto simp: deletedNames_def inj_on_def)
qed

text \<open>
  Claim C1, as the code has it. The second loop compares the names with the checksum
  the addon has now, not with an older one. When the list succeeds, the first loop
  finds a most recent workflow of the addon, and every listed workflow has a status
  with a string phase, then: if the name of the most recent one contains the current
  checksum nothing happens and the result is \<open>false\<close>; otherwise \<open>Delete\<close> is called
  for every listed workflow whose name contains the current checksum and whose phase
  is not "Pending", for those only, and the result is \<open>true\<close> iff there is one (the
  error of a failed \<open>Delete\<close> is dropped). With names that are unique in the namespace
  the store loses exactly those workflows whose deletion did not fail; a workflow in
  phase "Pending" is never one of them.
\<close>

theorem deleteCollisionWorkflows_stale:
  assumes "\<not> listFails env"
    and "mostRecent env addon 0 None (listWorkflows world (AddonNamespace addon)) = Scanned t (Some mr)"
    and "\<forall>w \<in> set (listWorkflows world (AddonNamespace addon)). backend_phase w \<noteq> None"
  shows "deleteCollisionWorkflows env addon world wfv1 =
     (if Contains (GetName mr) (Checksum addon) then (Ok False, world)
      else (Ok (\<exists>w \<in> set (listWorkflows world (AddonNamespace addon)). stale addon w),
            world\<lparr>items := filter (\<lambda>x. \<not> (GetNamespace x = AddonNamespace addon \<and>
               GetName x \<in> set (deletedNames env addon
                                  (listWorkflows world (AddonNamespace addon)))))
              (items world)\<rparr>))
     \<and> (distinct (map GetName (listWorkflows world (AddonNamespace addon))) \<longrightarrow>
          \<not> Contains (GetName mr) (Checksum addon) \<longrightarrow>
          items (snd (deleteCollisionWorkflows env addon world wfv1)) =
            filter (\<lambda>x. \<not> (GetNamespace x = AddonNamespace addon \<and> stale addon x \<and>
                            \<not> deleteFails env (GetName x))) (items world))"
proof -
  let ?ws = "listWorkflows world (AddonNamespace addon)"
  have main: "deleteCollisionWorkflows env addon world wfv1 =
     (if Contains (GetName mr) (Checksum addon) then (Ok False, world)
      else (Ok (\<exists>w \<in> set ?ws. stale addon w),
            world\<lparr>items := filter (\<lambda>x. \<not> (GetNamespace x = AddonNamespace addon \<and>
               GetName x \<in> set (deletedNames env addon ?ws))) (items world)\<rparr>))"
    by (simp add: deleteCollision_scanned [OF assms(1,2)] deleteLoop_Ok [OF assms(3)])
  have "filter (\<lambda>x. \<not> (GetNamespace x = AddonNamespace addon \<and>
               GetName x \<in> set (deletedNames env addon ?ws))) (items world) =
        filter (\<lambda>x. \<not> (GetNamespace x = AddonNamespace addon \<and> stale addon x \<and>
                            \<not> deleteFails env (GetName x))) (items world)"
    if d: "distinct (map GetName ?ws)"
  proof (rule filter_cong [OF refl])
    fix x assume x: "x \<in> set (items world)"
    show "(\<not> (GetNamespace x = AddonNamespace addon \<and>
               GetName x \<in> set (deletedNames env addon ?ws))) =
          (\<not> (GetNamespace x = AddonNamespace addon \<and> stale addon x \<and>
                            \<not> deleteFails env (GetName x)))"
    proof (cases "GetNamespace x = AddonNamespace addon")
      case True
      with x have "x \<in> set ?ws" by (simp add: listWorkflows_def)
      from deletedNames_distinct [OF d this] True show ?thesis by simp
    next
      case False
      then show ?thesis by simp
    qed
  qed
  with main show ?thesis by simp
qed

theorem deleteCollisionWorkflows_stale_counterexample:
  "deleteCollisionWorkflows ex_env ex_addon \<lparr>items = [wf_A, wf_B], events = []\<rparr> wf_B =
     (Ok False, \<lparr>items = [wf_A, wf_B], events = []\<rparr>)"
  by (simp add: deleteCollisionWorkflows_def wf_A_def wf_B_def GetName_def GetNamespace_def getNestedString_def NestedString_def backend_phase_def listWorkflows_def workflow_def ex_env_def ex_addon_def)

theorem deleteCollisionWorkflows_stale_witness:
  "deleteCollisionWorkflows ex_env (ex_addon\<lparr>Checksum := ''aaa''\<rparr>)
      \<lparr>items = [wf_A, wf_B], events = []\<rparr> wf_A = (Ok True, \<lparr>items = [wf_B], events = []\<rparr>)
   \<and> deleteCollisionWorkflows ex_env (ex_addon\<lparr>Checksum := ''aaa''\<rparr>)
      \<lparr>items = [wf_A_pending, wf_B], events = []\<rparr> wf_A_pending =
        (Ok False, \<lparr>items = [wf_A_pending, wf_B], events = []\<rparr>)"
proof -
  let ?a = "ex_addon\<lparr>Checksum := ''aaa''\<rparr>"
  let ?w1 = "\<lparr>items = [wf_A, wf_B], events = []\<rparr>"
  let ?w2 = "\<lparr>items = [wf_A_pending, wf_B], events = []\<rparr>"
  have l: "\<not> listFails ex_env" by (simp add: ex_env_def)
  have m1: "mostRecent ex_env ?a 0 None (listWorkflows ?w1 (AddonNamespace ?a)) = Scanned 2 (Some wf_B)"
    by (simp add: wf_A_def wf_B_def wf_A_pending_def GetName_def GetNamespace_def getNestedString_def NestedString_def backend_phase_def listWorkflows_def workflow_def ex_env_def ex_addon_def)
  have m2: "mostRecent ex_env ?a 0 None (listWorkflows ?w2 (AddonNamespace ?a)) = Scanned 2 (Some wf_B)"
    by (simp add: wf_A_def wf_B_def wf_A_pending_def GetName_def GetNamespace_def getNestedString_def NestedString_def backend_phase_def listWorkflows_def workflow_def ex_env_def ex_addon_def)
  have p1: "\<forall>w \<in> set (listWorkflows ?w1 (AddonNamespace ?a)). backend_phase w \<noteq> None"
    by (simp add: wf_A_def wf_B_def wf_A_pending_def GetName_def GetNamespace_def getNestedString_def NestedString_def backend_phase_def listWorkflows_def workflow_def ex_env_def ex_addon_def)
  have p2: "\<forall>w \<in> set (listWorkflows ?w2 (AddonNamespace ?a)). backend_phase w \<noteq> None"
    by (simp add: wf_A_def wf_B_def wf_A_pending_def GetName_def GetNamespace_def getNestedString_def NestedString_def backend_phase_def listWorkflows_def workflow_def ex_env_def ex_addon_def)
  show ?thesis
    using deleteCollisionWorkflows_stale [OF l m1 p1, of wf_A]
      deleteCollisionWorkflows_stale [OF l m2 p2, of wf_A_pending]
    by (simp add: wf_A_def wf_B_def wf_A_pending_def GetName_def GetNamespace_def getNestedString_def NestedString_def backend_phase_def listWorkflows_def workflow_def ex_env_def ex_addon_def stale_def deletedNames_def)
qed

text \<open>
  Claim C10. The second loop runs over every workflow of the namespace and reads
  \<open>status\<close> and \<open>status.phase\<close> with unchecked assertions, while the early return for
  a missing status guards only the workflows whose name contains the name of the
  addon. So when the most recent workflow of the addon does not carry the current
  checksum and the namespace holds a workflow of another name that has no status
  block, or no string at \<open>status.phase\<close>, \<open>deleteCollisionWorkflows\<close> panics.
\<close>

theorem deleteCollisionWorkflows_unchecked:
  assumes "\<not> listFails env"
    and "mostRecent env addon 0 None (listWorkflows world (AddonNamespace addon)) = Scanned t (Some mr)"
    and "\<not> Contains (GetName mr) (Checksum addon)"
    and "u \<in> set (listWorkflows world (AddonNamespace addon))"
    and "\<not> Contains (GetName u) (Name addon)"
    and "backend_phase u = None"
  shows "fst (deleteCollisionWorkflows env addon world wfv1) = Panic"
  by (simp add: deleteCollision_scanned [OF assms(1,2)] assms(3) deleteLoop_Panic [OF assms(4,6)])

theorem deleteCollisionWorkflows_unchecked_witness:
  "fst (deleteCollisionWorkflows ex_env ex_addon
      \<lparr>items = [wf_A, unstarted ''backup-job''], events = []\<rparr> wf_A) = Panic
   \<and> \<not> Contains (GetName (unstarted ''backup-job'')) (Name ex_addon)
   \<and> index (unstarted ''backup-job'') ''status'' = JNull
   \<and> fst (deleteCollisionWorkflows ex_env ex_addon
      \<lparr>items = [wf_A, put ''status'' (JMap [(''phase'', JFloat 1)]) (unstarted ''backup-job'')],
        events = []\<rparr> wf_A) = Panic"
proof -
  let ?u = "unstarted ''backup-job''"
  let ?v = "put ''status'' (JMap [(''phase'', JFloat 1)]) ?u"
  let ?w = "\<lparr>items = [wf_A, ?u], events = []\<rparr>"
  let ?w' = "\<lparr>items = [wf_A, ?v], events = []\<rparr>"
  note defs = wf_A_def unstarted_def GetName_def GetNamespace_def getNestedString_def NestedString_def backend_phase_def listWorkflows_def workflow_def ex_env_def ex_addon_def
  have l: "\<not> listFails ex_env" by (simp add: ex_env_def)
  have m: "mostRecent ex_env ex_addon 0 None (listWorkflows ?w (AddonNamespace ex_addon)) = Scanned 1 (Some wf_A)"
    by (simp add: defs)
  have m': "mostRecent ex_env ex_addon 0 None (listWorkflows ?w' (AddonNamespace ex_addon)) = Scanned 1 (Some wf_A)"
    by (simp add: defs)
  have c: "\<not> Contains (GetName wf_A) (Checksum ex_addon)" by (simp add: defs)
  have u: "?u \<in> set (listWorkflows ?w (AddonNamespace ex_addon))" by (simp add: defs)
  have u': "?v \<in> set (listWorkflows ?w' (AddonNamespace ex_addon))" by (simp add: defs)
  have n: "\<not> Contains (GetName ?u) (Name ex_addon)" by (simp add: defs)
  have n': "\<not> Contains (GetName ?v) (Name ex_addon)" by (simp add: defs)
  have b: "backend_phase ?u = None" by (simp add: defs)
  have b': "backend_phase ?v = None" by (simp add: defs)
  from deleteCollisionWorkflows_unchecked [OF l m c u n b, of wf_A]
       deleteCollisionWorkflows_unchecked [OF l m' c u' n' b', of wf_A] n
  show ?thesis by (simp add: unstarted_def)
qed

section \<open>Submission Engine: an existing execution\<close>





lemma map_of_del [simp]: "map_of (del k m) = (map_of m)(k := None)"
  by (induction m) (auto simp: del_def fun_eq_iff)

lemma index_del [simp]: "index (del k m) k' = (if k' = k then JNull else index m k')"
  by (simp add: index_def)





lemma status_set:
  "f \<noteq> ''status'' \<Longrightarrow> index (setNestedField u v (f # fs)) ''status'' = index u ''status''"
  by (cases fs) (auto simp: setNestedField_def split: option.splits json.splits)

lemma status_remove:
  "index (RemoveNestedField u [''metadata'', k]) ''status'' = index u ''status''"
  by (auto split: option.splits json.splits)















text \<open>
  The second part of the claim asks for a job without a status of its own. The jobs
  that \<open>Install\<close> submits are such jobs: \<open>parse\<close> builds them from an empty object and
  the \<open>spec\<close> of the template, and the two later steps change \<open>spec\<close> only.
\<close>

lemma rendered_job_no_status:
  assumes "parse y addon wt [] name = Ok wp"
    and "configureGlobalWFParameters ord addon wp = Ok (b, wp1)"
    and "configureWorkflowArtifacts y addon grp wp1 wt = Ok wp2"
  shows "index wp2 ''status'' = JNull"
proof -
  from assms(1) obtain spec where
    "wp = put ''spec'' (JMap spec)
            (SetName name (SetNamespace (AddonNamespace addon) (SetGroupVersionKind_Workflow [])))"
    by (auto simp: parse_def Let_def split: option.splits json.splits)
  then have 1: "index wp ''status'' = JNull"
    by (simp add: SetName_def SetNamespace_def SetGroupVersionKind_Workflow_def
          status_set status_remove del: RemoveNestedField.simps)
  from assms(2) have 2: "index wp1 ''status'' = index wp ''status''"
    by (auto simp: configure_cases split: json.splits)
  from assms(3) obtain spec1 ts where
    "wp2 = setNestedField (put ''spec'' spec1 wp1) (JList ts) [''spec'', ''templates'']"
    by (auto simp: configureWorkflowArtifacts_def Let_def split: result.splits nested.splits json.splits)
  then have "index wp2 ''status'' = index wp1 ''status''"
    by (simp add: status_set)
  with 1 2 show ?thesis by simp
qed


section \<open>Artifact Post-Processor: a second application\<close>


























end
